theory Spec2Isabelle
  imports Complex_Main "HOL-Library.Word"
begin

unbundle bit_operations_syntax

section \<open>JavaScript values and operators\<close>

text \<open>
  A feature identifier of the boundary data is a JSON number or a JSON string (the
  world-atlas files declare strings such as "004"). Numeric identifiers are modelled as
  integers. Keys of a JavaScript \<^verbatim>\<open>Map\<close> are compared without coercion, so a number
  and a string are never the same key; equality of this datatype is that comparison.
\<close>

datatype js_id = IdNum int | IdStr string

text \<open>Truthiness, as the operator \<^verbatim>\<open>||\<close> tests it: 0 and the empty string are falsy.\<close>

fun truthy_id :: "js_id \<Rightarrow> bool" where
  "truthy_id (IdNum n) = (n \<noteq> 0)"
| "truthy_id (IdStr s) = (s \<noteq> [])"

text \<open>
  The bitwise operators of JavaScript convert their operands to signed 32-bit integers
  and return a signed 32-bit integer. The conversion is written out on \<open>int\<close>.
\<close>

definition toInt32 :: "int \<Rightarrow> int" where
  "toInt32 n = signed_take_bit 31 n"

definition js_and :: "int \<Rightarrow> int \<Rightarrow> int" where
  "js_and a b = toInt32 a AND toInt32 b"

definition js_or :: "int \<Rightarrow> int \<Rightarrow> int" where
  "js_or a b = toInt32 a OR toInt32 b"

definition js_shl :: "int \<Rightarrow> nat \<Rightarrow> int" where
  "js_shl a k = toInt32 (push_bit (k mod 32) (toInt32 a))"

definition js_sar :: "int \<Rightarrow> nat \<Rightarrow> int" where
  "js_sar a k = drop_bit (k mod 32) (toInt32 a)"

text \<open>Decimal rendering of an array index, as a template literal produces it.\<close>

definition digit_char :: "nat \<Rightarrow> char" where
  "digit_char d = ''0123456789'' ! d"

fun show_nat :: "nat \<Rightarrow> string" where
  "show_nat n = (if n < 10 then [digit_char n] else show_nat (n div 10) @ [digit_char (n mod 10)])"

declare show_nat.simps [simp del]

text \<open>\<^verbatim>\<open>String.prototype.toLowerCase\<close>, on ASCII text.\<close>

definition lower_char :: "char \<Rightarrow> char" where
  "lower_char c =
     (if 65 \<le> (of_char c :: nat) \<and> (of_char c :: nat) \<le> 90 then char_of (of_char c + 32 :: nat) else c)"

definition toLowerCase :: "string \<Rightarrow> string" where
  "toLowerCase s = map lower_char s"

text \<open>
  \<^verbatim>\<open>Math.atan2(y, x)\<close> on real numbers (numbers of the source are read as reals; there
  is no signed zero, and \<^verbatim>\<open>atan2(0, 0)\<close> is 0).
\<close>

definition atan2 :: "real \<Rightarrow> real \<Rightarrow> real" where
  "atan2 y x =
     (if 0 < x then arctan (y / x)
      else if x < 0 then (if 0 \<le> y then arctan (y / x) + pi else arctan (y / x) - pi)
      else if 0 < y then pi / 2
      else if y < 0 then - (pi / 2)
      else 0)"

section \<open>Vectors of the rendering library\<close>

datatype Vector2 = Vector2 (v2x: real) (v2y: real)

datatype Vector3 = Vector3 (v3x: real) (v3y: real) (v3z: real)

definition length_v3 :: "Vector3 \<Rightarrow> real" where
  "length_v3 p = sqrt (v3x p * v3x p + v3y p * v3y p + v3z p * v3z p)"

text \<open>\<^verbatim>\<open>Vector3.normalize\<close> divides by the length, or by 1 when the length is 0.\<close>

definition normalize_v3 :: "Vector3 \<Rightarrow> Vector3" where
  "normalize_v3 p =
     (let l = (if length_v3 p = 0 then 1 else length_v3 p)
      in Vector3 (v3x p / l) (v3y p / l) (v3z p / l))"

section \<open>Data model of the country renderer\<close>

text \<open>
  GeoJSON coordinates are nested arrays whose leaves are positions \<^verbatim>\<open>[lon, lat]\<close>.
  \<open>Position lon lat\<close> is an array whose element 0 is a number; \<open>Coords cs\<close> is any
  other array.
\<close>

datatype coords = Position real real | Coords "coords list"

record geometry =
  gtype :: string
  coordinates :: "coords option"

type_synonym properties = "string \<rightharpoonup> string"

text \<open>
  A feature as the TopoJSON conversion returns it: \<open>f_id\<close> and \<open>f_properties\<close> may be
  absent, and \<open>f_geometry\<close> is \<open>None\<close> for a null geometry. The properties are
  read as a dictionary of strings (a declared name is a string).
\<close>

record feature =
  f_id :: "js_id option"
  f_properties :: "properties option"
  f_geometry :: "geometry option"

record latlon =
  lat :: real
  lon :: real

record bounds =
  minLat :: real
  maxLat :: real
  minLon :: real
  maxLon :: real

record country =
  c_id :: js_id
  c_name :: string
  c_geometry :: geometry
  c_centroid :: latlon
  c_bounds :: bounds

text \<open>
  The lookup canvas. Its pixels are painted and read back by the browser's drawing
  surface: \<open>getImageData cv x y\<close> is the RGBA pixel that a 1-by-1 read at \<open>(x, y)\<close>
  returns, each channel a byte.
\<close>

type_synonym pixel = "8 word \<times> 8 word \<times> 8 word \<times> 8 word"

record canvas =
  width :: nat
  height :: nat
  getImageData :: "int \<Rightarrow> int \<Rightarrow> pixel"

text \<open>
  The fields of \<^verbatim>\<open>CountryRenderer\<close> and of the shared state (\<^verbatim>\<open>countries.*\<close>) that
  loading and picking use. The borders group is the list of its lines, a line being the
  list of its points.
\<close>

record renderer_state =
  bordersGroup :: "Vector3 option list list option"
  lookupCanvas :: "canvas option"
  countryData :: "country list"
  loaded :: bool
  byId :: "js_id \<rightharpoonup> country"
  byName :: "string \<rightharpoonup> country"

datatype error = TypeError

definition CONFIG_globe_radius :: real where
  "CONFIG_globe_radius = 1"

section \<open>Geometric analysis\<close>

text \<open>
  \<^verbatim>\<open>_calculateCentroid\<close>: the closure \<^verbatim>\<open>processCoords\<close> updates the three local
  variables \<^verbatim>\<open>(totalLat, totalLon, count)\<close>, passed here as a triple.
\<close>

fun centroid_processCoords :: "coords \<Rightarrow> real \<times> real \<times> nat \<Rightarrow> real \<times> real \<times> nat" where
  "centroid_processCoords (Position c0 c1) (totalLat, totalLon, count) =
     (totalLat + c1, totalLon + c0, count + 1)"
| "centroid_processCoords (Coords cs) acc = fold centroid_processCoords cs acc"

definition calculateCentroid :: "geometry \<Rightarrow> latlon" where
  "calculateCentroid g =
     (case (case coordinates g of
              None \<Rightarrow> (0, 0, 0)
            | Some cs \<Rightarrow> centroid_processCoords cs (0, 0, 0))
      of (totalLat, totalLon, count) \<Rightarrow>
        if count > 0
        then \<lparr>lat = totalLat / real count, lon = totalLon / real count\<rparr>
        else \<lparr>lat = 0, lon = 0\<rparr>)"

text \<open>\<^verbatim>\<open>_calculateBounds\<close>: the locals are \<^verbatim>\<open>(minLat, maxLat, minLon, maxLon)\<close>.\<close>

fun bounds_processCoords :: "coords \<Rightarrow> real \<times> real \<times> real \<times> real \<Rightarrow> real \<times> real \<times> real \<times> real" where
  "bounds_processCoords (Position c0 c1) (mnLat, mxLat, mnLon, mxLon) =
     (min mnLat c1, max mxLat c1, min mnLon c0, max mxLon c0)"
| "bounds_processCoords (Coords cs) acc = fold bounds_processCoords cs acc"

definition calculateBounds :: "geometry \<Rightarrow> bounds" where
  "calculateBounds g =
     (case (case coordinates g of
              None \<Rightarrow> (90, - 90, 180, - 180)
            | Some cs \<Rightarrow> bounds_processCoords cs (90, - 90, 180, - 180))
      of (mnLat, mxLat, mnLon, mxLon) \<Rightarrow>
        \<lparr>minLat = mnLat, maxLat = mxLat, minLon = mnLon, maxLon = mxLon\<rparr>)"

text \<open>
  The vertices of a geometry as the specification speaks of them: every position of
  every ring of every sub-polygon, as \<open>(lon, lat)\<close> pairs in array order.
\<close>

fun vertices :: "coords \<Rightarrow> (real \<times> real) list" where
  "vertices (Position c0 c1) = [(c0, c1)]"
| "vertices (Coords cs) = concat (map vertices cs)"

definition geometry_vertices :: "geometry \<Rightarrow> (real \<times> real) list" where
  "geometry_vertices g = (case coordinates g of None \<Rightarrow> [] | Some cs \<Rightarrow> vertices cs)"

section \<open>Colour coding of identifiers\<close>

text \<open>
  \<^verbatim>\<open>_idToColor\<close> computes three channels and formats them as a CSS colour;
  \<open>idToColor_rgb\<close> is the channels, \<open>idToColor\<close> the formatted string.
\<close>

definition idToColor_rgb :: "int \<Rightarrow> int \<times> int \<times> int" where
  "idToColor_rgb i =
     (let r = js_sar (js_and i 0xFF0000) 16;
          g = js_sar (js_and i 0x00FF00) 8;
          b = js_and i 0x0000FF
      in (r, g, b))"

definition idToColor :: "int \<Rightarrow> string" where
  "idToColor i =
     (case idToColor_rgb i of (r, g, b) \<Rightarrow>
        ''rgb('' @ show_nat (nat r) @ '','' @ show_nat (nat g) @ '','' @ show_nat (nat b) @ '')'')"

definition colorToId :: "int \<Rightarrow> int \<Rightarrow> int \<Rightarrow> int" where
  "colorToId r g b = js_or (js_or (js_shl r 16) (js_shl g 8)) b"

section \<open>Projection between latitude/longitude and points\<close>

text \<open>\<^verbatim>\<open>CountryRenderer._latLonToPoint\<close>, used for the border lines.\<close>

definition CountryRenderer_latLonToPoint :: "real \<Rightarrow> real \<Rightarrow> real \<Rightarrow> Vector3" where
  "CountryRenderer_latLonToPoint la lo radius =
     (let phi = (90 - la) * (pi / 180);
          theta = (lo + 180) * (pi / 180)
      in Vector3 (- radius * sin phi * cos theta) (radius * cos phi) (radius * sin phi * sin theta))"

text \<open>
  The target position that \<^verbatim>\<open>SceneManager.flyTo\<close> computes; \<open>cameraPosition\<close> is the
  camera's position when the flight starts.
\<close>

definition flyTo_targetPos :: "Vector3 \<Rightarrow> real \<Rightarrow> real \<Rightarrow> Vector3" where
  "flyTo_targetPos cameraPosition la lo =
     (let phi = (90 - la) * (pi / 180);
          theta = (lo + 180) * (pi / 180);
          distance = length_v3 cameraPosition
      in Vector3 (distance * sin phi * cos theta) (distance * cos phi) (distance * sin phi * sin theta))"

text \<open>\<^verbatim>\<open>GlobeRenderer.latLonToPoint\<close> and \<^verbatim>\<open>GlobeRenderer.pointToLatLon\<close>.\<close>

definition latLonToPoint :: "real \<Rightarrow> real \<Rightarrow> Vector3" where
  "latLonToPoint la lo =
     (let phi = (90 - la) * (pi / 180);
          theta = (lo + 180) * (pi / 180);
          x = - CONFIG_globe_radius * sin phi * cos theta;
          y = CONFIG_globe_radius * cos phi;
          z = CONFIG_globe_radius * sin phi * sin theta
      in Vector3 x y z)"

definition pointToLatLon :: "Vector3 \<Rightarrow> latlon" where
  "pointToLatLon point =
     (let normalized = normalize_v3 point;
          la = 90 - arccos (v3y normalized) * (180 / pi);
          lo = atan2 (v3z normalized) (- v3x normalized) * (180 / pi)
      in \<lparr>lat = la, lon = lo\<rparr>)"

section \<open>Border lines\<close>

text \<open>
  \<^verbatim>\<open>_geometryToLines\<close>. A line is the list of points of one ring, kept when it has
  more than one point. Calling \<^verbatim>\<open>forEach\<close> on a number, and destructuring a number
  as \<^verbatim>\<open>[lon, lat]\<close>, throw a \<^verbatim>\<open>TypeError\<close>. A vertex that is an array but not a
  position makes the source compute with coerced arrays, without an exception; such a
  point is \<open>None\<close> here.
\<close>

type_synonym polyline = "Vector3 option list"

fun ringPoint :: "real \<Rightarrow> coords \<Rightarrow> Vector3 option" where
  "ringPoint radius (Position c0 c1) = Some (CountryRenderer_latLonToPoint c1 c0 radius)"
| "ringPoint radius (Coords xs) = None"

fun processRing :: "real \<Rightarrow> coords \<Rightarrow> error + polyline list" where
  "processRing radius (Position c0 c1) = Inl TypeError"
| "processRing radius (Coords pts) =
     (let points = map (ringPoint radius) pts
      in Inr (if length points > 1 then [points] else []))"

text \<open>A \<^verbatim>\<open>forEach\<close> whose callback appends lines, stopping at the first exception.\<close>

fun forEach_lines :: "(coords \<Rightarrow> error + polyline list) \<Rightarrow> coords list \<Rightarrow> error + polyline list" where
  "forEach_lines f [] = Inr []"
| "forEach_lines f (x # xs) =
     (case f x of
        Inl e \<Rightarrow> Inl e
      | Inr ls \<Rightarrow>
          (case forEach_lines f xs of
             Inl e \<Rightarrow> Inl e
           | Inr ms \<Rightarrow> Inr (ls @ ms)))"

fun processPolygon :: "real \<Rightarrow> coords \<Rightarrow> error + polyline list" where
  "processPolygon radius (Position c0 c1) = Inl TypeError"
| "processPolygon radius (Coords rings) = forEach_lines (processRing radius) rings"

fun processMultiPolygon :: "real \<Rightarrow> coords \<Rightarrow> error + polyline list" where
  "processMultiPolygon radius (Position c0 c1) = Inl TypeError"
| "processMultiPolygon radius (Coords polygons) = forEach_lines (processPolygon radius) polygons"

definition geometryToLines :: "geometry \<Rightarrow> error + polyline list" where
  "geometryToLines g =
     (let radius = CONFIG_globe_radius * 1.001
      in if gtype g = ''Polygon'' then
           (case coordinates g of
              None \<Rightarrow> Inl TypeError
            | Some cs \<Rightarrow> processPolygon radius cs)
         else if gtype g = ''MultiPolygon'' then
           (case coordinates g of
              None \<Rightarrow> Inl TypeError
            | Some cs \<Rightarrow> processMultiPolygon radius cs)
         else Inr [])"

text \<open>
  \<^verbatim>\<open>_createCountryMeshes\<close>: the lines of each country are added to the borders group
  in turn. The result is the exception, if one is thrown, and the group as it then is.
  The scene is taken to be initialised, as the application does before loading.
\<close>

fun createCountryMeshes :: "country list \<Rightarrow> polyline list \<Rightarrow> error option \<times> polyline list" where
  "createCountryMeshes [] grp = (None, grp)"
| "createCountryMeshes (c # cs) grp =
     (case geometryToLines (c_geometry c) of
        Inl e \<Rightarrow> (Some e, grp)
      | Inr ls \<Rightarrow> createCountryMeshes cs (grp @ ls))"

section \<open>Loading\<close>

text \<open>
  The callback of \<^verbatim>\<open>countries.features.map\<close> in \<^verbatim>\<open>load\<close>. Reading
  \<^verbatim>\<open>geometry.coordinates\<close> of a null geometry throws a \<^verbatim>\<open>TypeError\<close>.
\<close>

definition processFeature :: "feature \<Rightarrow> nat \<Rightarrow> error + country" where
  "processFeature ft index =
     (let props = (case f_properties ft of None \<Rightarrow> Map.empty | Some p \<Rightarrow> p);
          ident = (case f_id ft of
                     None \<Rightarrow> IdNum (int index)
                   | Some d \<Rightarrow> if truthy_id d then d else IdNum (int index));
          nm = (case props ''name'' of
                  None \<Rightarrow> ''Country '' @ show_nat index
                | Some n \<Rightarrow> if n \<noteq> [] then n else ''Country '' @ show_nat index)
      in case f_geometry ft of
           None \<Rightarrow> Inl TypeError
         | Some g \<Rightarrow>
             Inr \<lparr>c_id = ident, c_name = nm, c_geometry = g,
                  c_centroid = calculateCentroid g, c_bounds = calculateBounds g\<rparr>)"

text \<open>\<^verbatim>\<open>Array.prototype.map\<close> with the index, stopping at the first exception.\<close>

fun mapFeatures :: "nat \<Rightarrow> feature list \<Rightarrow> error + country list" where
  "mapFeatures index [] = Inr []"
| "mapFeatures index (ft # fts) =
     (case processFeature ft index of
        Inl e \<Rightarrow> Inl e
      | Inr c \<Rightarrow>
          (case mapFeatures (Suc index) fts of
             Inl e \<Rightarrow> Inl e
           | Inr cs \<Rightarrow> Inr (c # cs)))"

text \<open>The \<^verbatim>\<open>forEach\<close> that fills the two lookup maps with \<^verbatim>\<open>Map.set\<close>.\<close>

definition setLookup ::
    "country \<Rightarrow> (js_id \<rightharpoonup> country) \<times> (string \<rightharpoonup> country) \<Rightarrow> (js_id \<rightharpoonup> country) \<times> (string \<rightharpoonup> country)" where
  "setLookup c maps =
     (case maps of (ids, names) \<Rightarrow> (ids(c_id c \<mapsto> c), names(toLowerCase (c_name c) \<mapsto> c)))"

definition buildLookup ::
    "country list \<Rightarrow> (js_id \<rightharpoonup> country) \<times> (string \<rightharpoonup> country)" where
  "buildLookup cs = fold setLookup cs (Map.empty, Map.empty)"

text \<open>
  \<^verbatim>\<open>load\<close>, from the converted feature list on. The countries and the lookup maps
  are published before the border meshes are built; an exception while building them
  leaves the published countries in place and the lookup canvas as it was. The pixels
  that the drawing surface holds after \<^verbatim>\<open>_createLookupTexture\<close> are the parameter
  \<open>painted\<close>; painting walks the same arrays as the border meshes and throws nothing
  that they have not thrown before. An exception in the map over the features leaves
  every field but \<open>loaded\<close> as it was.
\<close>

definition load ::
    "renderer_state \<Rightarrow> feature list \<Rightarrow> (int \<Rightarrow> int \<Rightarrow> pixel) \<Rightarrow> (error + country list) \<times> renderer_state" where
  "load st features painted =
     (let st1 = st\<lparr>loaded := False\<rparr>
      in case mapFeatures 0 features of
           Inl e \<Rightarrow> (Inl e, st1)
         | Inr cd \<Rightarrow>
             (case buildLookup cd of (ids, names) \<Rightarrow>
                (let st2 = st1\<lparr>countryData := cd, loaded := True, byId := ids, byName := names\<rparr>
                 in case createCountryMeshes cd [] of
                      (Some e, grp) \<Rightarrow> (Inl e, st2\<lparr>bordersGroup := Some grp\<rparr>)
                    | (None, grp) \<Rightarrow>
                        (Inr cd,
                         st2\<lparr>bordersGroup := Some grp,
                             lookupCanvas :=
                               Some \<lparr>width = 2048, height = 2048, getImageData = painted\<rparr>\<rparr>))))"

text \<open>The state that the constructor and the state manager start from.\<close>

definition initial_state :: renderer_state where
  "initial_state =
     \<lparr>bordersGroup = None, lookupCanvas = None, countryData = [], loaded = False,
      byId = Map.empty, byName = Map.empty\<rparr>"

section \<open>Picking\<close>

definition getCountryAtUV :: "renderer_state \<Rightarrow> Vector2 \<Rightarrow> country option" where
  "getCountryAtUV st uv =
     (case lookupCanvas st of
        None \<Rightarrow> None
      | Some cv \<Rightarrow>
          (let x = \<lfloor>v2x uv * real (width cv)\<rfloor>;
               y = \<lfloor>(1 - v2y uv) * real (height cv)\<rfloor>
           in case getImageData cv x y of
                (p0, p1, p2, p3) \<Rightarrow>
                  if p0 = 0 \<and> p1 = 0 \<and> p2 = 0 then None
                  else byId st (IdNum (colorToId (uint p0) (uint p1) (uint p2)))))"

section \<open>Example inputs\<close>

text \<open>The square of the specification's scenario A, and a polygon without vertices.\<close>

definition square :: geometry where
  "square = \<lparr>gtype = ''Polygon'',
     coordinates = Some (Coords [Coords [Position 0 0, Position 0 10, Position 10 10, Position 10 0]])\<rparr>"

definition empty_polygon :: geometry where
  "empty_polygon = \<lparr>gtype = ''Polygon'', coordinates = Some (Coords [])\<rparr>"

definition feature_out_of_range :: feature where
  "feature_out_of_range =
     \<lparr>f_id = Some (IdNum 16777216), f_properties = Some [''name'' \<mapsto> ''Testland''],
      f_geometry = Some square\<rparr>"

definition feature_seven :: "string \<Rightarrow> feature" where
  "feature_seven nm =
     \<lparr>f_id = Some (IdNum 7), f_properties = Some [''name'' \<mapsto> nm], f_geometry = Some square\<rparr>"

definition feature_plain :: feature where
  "feature_plain = \<lparr>f_id = None, f_properties = None, f_geometry = Some square\<rparr>"

definition feature_no_coordinates :: feature where
  "feature_no_coordinates =
     \<lparr>f_id = Some (IdNum 3), f_properties = None,
      f_geometry = Some \<lparr>gtype = ''Polygon'', coordinates = None\<rparr>\<rparr>"

text \<open>Two lookup rasters: an empty one, and one holding the square in the colour of id 7.\<close>

definition blank :: "int \<Rightarrow> int \<Rightarrow> pixel" where
  "blank x y = (0, 0, 0, 255)"

definition painted_seven :: "int \<Rightarrow> int \<Rightarrow> pixel" where
  "painted_seven x y =
     (if 1024 \<le> x \<and> x \<le> 1080 \<and> 911 \<le> y \<and> y \<le> 1023 then (0, 0, 7, 255) else (0, 0, 0, 255))"

text \<open>
  A state whose canvas is 4 pixels wide and 2 high, with one pixel of colour (1, 2, 3),
  and whose only country has the identifier \<open>0x010203\<close>.
\<close>

definition country_66051 :: country where
  "country_66051 =
     \<lparr>c_id = IdNum 66051, c_name = ''Testland'', c_geometry = square,
      c_centroid = calculateCentroid square, c_bounds = calculateBounds square\<rparr>"

definition canvas_4x2 :: canvas where
  "canvas_4x2 =
     \<lparr>width = 4, height = 2,
      getImageData = (\<lambda>x y. if x = 3 \<and> y = 0 then (1, 2, 3, 255) else (0, 0, 0, 255))\<rparr>"

definition state_4x2 :: renderer_state where
  "state_4x2 =
     \<lparr>bordersGroup = None, lookupCanvas = Some canvas_4x2, countryData = [country_66051],
      loaded = True, byId = fst (buildLookup [country_66051]),
      byName = snd (buildLookup [country_66051])\<rparr>"

section \<open>The specification's reading of ingestion\<close>

text \<open>The declared name of a record: \<^verbatim>\<open>properties.name\<close>, when both exist.\<close>

definition declared_name :: "feature \<Rightarrow> string option" where
  "declared_name ft = (case f_properties ft of None \<Rightarrow> None | Some p \<Rightarrow> p ''name'')"

text \<open>
  The specification's words, for comparison with \<open>processFeature\<close>: an identifier is
  valid when \<open>0 \<le> id < 2^24 - 1\<close>, and a feature's identifier is the declared one if
  present and valid, else the zero-based position.
\<close>

definition spec_valid_id :: "int \<Rightarrow> bool" where
  "spec_valid_id n = (0 \<le> n \<and> n < 2 ^ 24 - 1)"

definition spec_assigned_id :: "feature \<Rightarrow> nat \<Rightarrow> js_id" where
  "spec_assigned_id ft index =
     (case f_id ft of
        Some (IdNum n) \<Rightarrow> if spec_valid_id n then IdNum n else IdNum (int index)
      | _ \<Rightarrow> IdNum (int index))"

section \<open>Arithmetic of the 32-bit operators\<close>

lemma toInt32_id: "- 2147483648 \<le> n \<Longrightarrow> n < 2147483648 \<Longrightarrow> toInt32 n = n"
  unfolding toInt32_def by (simp add: signed_take_bit_int_eq_self)

lemma js_and_nonneg:
  assumes "0 \<le> a" "a < 2147483648" "0 \<le> b" "b < 2147483648"
  shows "js_and a b = a AND b"
  using assms by (simp add: js_and_def toInt32_id)

lemma js_or_nonneg:
  assumes "0 \<le> a" "a < 2147483648" "0 \<le> b" "b < 2147483648"
  shows "js_or a b = a OR b"
  using assms by (simp add: js_or_def toInt32_id)

lemma js_sar_nonneg:
  assumes "0 \<le> a" "a < 2147483648" "k < 32"
  shows "js_sar a k = drop_bit k a"
  using assms by (simp add: js_sar_def toInt32_id)

lemma js_shl_small:
  assumes "0 \<le> a" "a < 2^8" "k \<le> 16"
  shows "js_shl a k = push_bit k a"
proof -
  have "a * 2 ^ k \<le> a * 2 ^ 16"
    using assms by (intro mult_left_mono power_increasing) auto
  also have "\<dots> < 2 ^ 8 * 2 ^ 16" using assms by simp
  finally have hi: "push_bit k a < 2147483648" by (simp add: push_bit_eq_mult)
  have lo: "0 \<le> push_bit k a" using assms by simp
  have "toInt32 (push_bit k a) = push_bit k a"
    by (rule toInt32_id) (use lo hi in linarith)+
  moreover have "toInt32 a = a" using assms by (simp add: toInt32_id)
  moreover have "k mod 32 = k" using assms by simp
  ultimately show ?thesis by (simp add: js_shl_def)
qed

lemma take_bit8_range: "0 \<le> take_bit 8 (x::int)" "take_bit 8 (x::int) < 2^8"
proof -
  show "0 \<le> take_bit 8 x" by simp
  show "take_bit 8 x < 2^8" by (rule take_bit_int_less_exp)
qed

lemma mask_FF0000: "(0xFF0000::int) = push_bit 16 (mask 8)"
  by (simp add: mask_eq_exp_minus_1 push_bit_eq_mult)

lemma mask_FF00: "(0xFF00::int) = push_bit 8 (mask 8)"
  by (simp add: mask_eq_exp_minus_1 push_bit_eq_mult)

lemma mask_FF: "(0xFF::int) = mask 8"
  by (simp add: mask_eq_exp_minus_1)

lemma idToColor_rgb_nonneg:
  assumes "0 \<le> i" "i < 2147483648"
  shows "idToColor_rgb i = (take_bit 8 (drop_bit 16 i), take_bit 8 (drop_bit 8 i), take_bit 8 i)"
proof -
  have a1: "0 \<le> i AND 0xFF0000" "i AND 0xFF0000 < 2147483648"
    using assms AND_upper1[of i "0xFF0000"] by auto
  have a2: "0 \<le> i AND 0xFF00" "i AND 0xFF00 < 2147483648"
    using assms AND_upper1[of i "0xFF00"] by auto
  have r: "js_sar (js_and i 0xFF0000) 16 = drop_bit 16 (i AND 0xFF0000)"
    using assms a1 by (simp add: js_and_nonneg js_sar_nonneg)
  have g: "js_sar (js_and i 0xFF00) 8 = drop_bit 8 (i AND 0xFF00)"
    using assms a2 by (simp add: js_and_nonneg js_sar_nonneg)
  have b: "js_and i 0xFF = i AND 0xFF"
    using assms by (simp add: js_and_nonneg)
  have r': "drop_bit 16 (i AND 0xFF0000) = take_bit 8 (drop_bit 16 i)"
    unfolding mask_FF0000 by (rule bit_eqI) (auto simp add: bit_simps)
  have g': "drop_bit 8 (i AND 0xFF00) = take_bit 8 (drop_bit 8 i)"
    unfolding mask_FF00 by (rule bit_eqI) (auto simp add: bit_simps)
  have b': "i AND 0xFF = take_bit 8 i"
    unfolding mask_FF by (simp add: take_bit_eq_mask)
  show ?thesis
    unfolding idToColor_rgb_def Let_def r g b r' g' b' by simp
qed

lemma colorToId_bytes:
  assumes "0 \<le> r" "r < 2^8" "0 \<le> g" "g < 2^8" "0 \<le> b" "b < 2^8"
  shows "colorToId r g b = push_bit 16 r OR push_bit 8 g OR b"
proof -
  have sr: "js_shl r 16 = push_bit 16 r" using assms by (simp add: js_shl_small)
  have sg: "js_shl g 8 = push_bit 8 g" using assms by (simp add: js_shl_small)
  have rr: "0 \<le> push_bit 16 r" "push_bit 16 r < 2147483648"
    using assms by (simp_all add: push_bit_eq_mult)
  have gg: "0 \<le> push_bit 8 g" "push_bit 8 g < 2147483648"
    using assms by (simp_all add: push_bit_eq_mult)
  have o1: "js_or (push_bit 16 r) (push_bit 8 g) = push_bit 16 r OR push_bit 8 g"
    using rr gg by (simp add: js_or_nonneg)
  have "push_bit 16 r OR push_bit 8 g < 2147483648"
    using rr gg OR_upper[of "push_bit 16 r" 31 "push_bit 8 g"] by simp
  moreover have "0 \<le> push_bit 16 r OR push_bit 8 g" using rr gg by simp
  ultimately have o2: "js_or (push_bit 16 r OR push_bit 8 g) b = push_bit 16 r OR push_bit 8 g OR b"
    using assms by (simp add: js_or_nonneg or.assoc)
  show ?thesis unfolding colorToId_def sr sg o1 o2 ..
qed

lemma bytes_reassemble:
  "push_bit 16 (take_bit 8 (drop_bit 16 i)) OR push_bit 8 (take_bit 8 (drop_bit 8 i)) OR take_bit 8 i
     = take_bit 24 (i::int)"
proof (rule bit_eqI)
  fix n :: nat
  consider "n < 8" | "8 \<le> n" "n < 16" | "16 \<le> n" "n < 24" | "24 \<le> n" by linarith
  then show "bit (push_bit 16 (take_bit 8 (drop_bit 16 i)) OR push_bit 8 (take_bit 8 (drop_bit 8 i))
                   OR take_bit 8 i) n = bit (take_bit 24 i) n"
    by cases (auto simp add: bit_simps)
qed

section \<open>Colour round trip\<close>

text \<open>
  C2. For every integer identifier from 1 to \<open>2^24 - 2\<close>, decoding the channels that
  \<^verbatim>\<open>_idToColor\<close> computes with \<^verbatim>\<open>_colorToId\<close> gives the identifier back.
\<close>

theorem colorToId_idToColor_roundtrip:
  assumes "1 \<le> i" "i \<le> 2 ^ 24 - 2"
  shows "(case idToColor_rgb i of (r, g, b) \<Rightarrow> colorToId r g b) = i"
proof -
  have i0: "0 \<le> i" and i24: "i < 2 ^ 24" and i31: "i < 2147483648"
    using assms by simp_all
  have tb: "take_bit 24 i = i"
    using i0 i24 by (simp add: take_bit_int_eq_self)
  have "colorToId (take_bit 8 (drop_bit 16 i)) (take_bit 8 (drop_bit 8 i)) (take_bit 8 i)
      = push_bit 16 (take_bit 8 (drop_bit 16 i)) OR push_bit 8 (take_bit 8 (drop_bit 8 i)) OR take_bit 8 i"
    by (intro colorToId_bytes take_bit8_range)
  then show ?thesis
    using i0 i31 by (simp add: idToColor_rgb_nonneg bytes_reassemble tb)
qed

theorem colorToId_idToColor_roundtrip_witness:
  "(1::int) \<le> 16777214 \<and> (16777214::int) \<le> 2 ^ 24 - 2
     \<and> (case idToColor_rgb 16777214 of (r, g, b) \<Rightarrow> colorToId r g b) = 16777214"
  using colorToId_idToColor_roundtrip [of 16777214] by simp

section \<open>Centroid and bounds\<close>

lemma centroid_fold_vertices:
  "centroid_processCoords c (sa, so, n) =
     (sa + sum_list (map snd (vertices c)), so + sum_list (map fst (vertices c)), n + length (vertices c))"
proof (induction c arbitrary: sa so n)
  case (Position c0 c1)
  show ?case by simp
next
  case (Coords cs)
  then show ?case
  proof (induction cs arbitrary: sa so n)
    case Nil
    show ?case by simp
  next
    case (Cons a as)
    have a: "centroid_processCoords a (sa, so, n) =
       (sa + sum_list (map snd (vertices a)), so + sum_list (map fst (vertices a)), n + length (vertices a))"
      by (rule Cons.prems) simp
    have rest: "\<And>sa so n. centroid_processCoords (Coords as) (sa, so, n) =
       (sa + sum_list (map snd (vertices (Coords as))), so + sum_list (map fst (vertices (Coords as))),
        n + length (vertices (Coords as)))"
      by (rule Cons.IH) (rule Cons.prems, simp)
    show ?case
      using rest by (simp add: a add.assoc)
  qed
qed

text \<open>
  C3. The centroid of a geometry is the unweighted mean of latitude and of longitude
  over all its vertices (the running sums divided by the number of vertices), and a
  geometry without vertices has the centroid (0, 0).
\<close>

theorem calculateCentroid_mean:
  "calculateCentroid g =
     (if geometry_vertices g = [] then \<lparr>lat = 0, lon = 0\<rparr>
      else \<lparr>lat = sum_list (map snd (geometry_vertices g)) / real (length (geometry_vertices g)),
            lon = sum_list (map fst (geometry_vertices g)) / real (length (geometry_vertices g))\<rparr>)"
  by (cases "coordinates g")
     (simp_all add: calculateCentroid_def geometry_vertices_def centroid_fold_vertices)

theorem calculateCentroid_mean_witness:
  "calculateCentroid square = \<lparr>lat = 5, lon = 5\<rparr>
   \<and> calculateCentroid empty_polygon = \<lparr>lat = 0, lon = 0\<rparr>"
  using calculateCentroid_mean [of square] calculateCentroid_mean [of empty_polygon]
  by (simp add: square_def empty_polygon_def geometry_vertices_def)

lemma bounds_fold_vertices:
  "bounds_processCoords c (a, b, d, e) =
     (fold min (map snd (vertices c)) a, fold max (map snd (vertices c)) b,
      fold min (map fst (vertices c)) d, fold max (map fst (vertices c)) e)"
proof (induction c arbitrary: a b d e)
  case (Position c0 c1)
  show ?case by (simp add: min.commute max.commute)
next
  case (Coords cs)
  then show ?case
  proof (induction cs arbitrary: a b d e)
    case Nil
    show ?case by simp
  next
    case (Cons x xs)
    have x: "\<And>a b d e. bounds_processCoords x (a, b, d, e) =
     (fold min (map snd (vertices x)) a, fold max (map snd (vertices x)) b,
      fold min (map fst (vertices x)) d, fold max (map fst (vertices x)) e)"
      by (rule Cons.prems) simp
    have rest: "\<And>a b d e. bounds_processCoords (Coords xs) (a, b, d, e) =
     (fold min (map snd (vertices (Coords xs))) a, fold max (map snd (vertices (Coords xs))) b,
      fold min (map fst (vertices (Coords xs))) d, fold max (map fst (vertices (Coords xs))) e)"
      by (rule Cons.IH) (rule Cons.prems, simp)
    show ?case
      using rest by (simp add: x)
  qed
qed

lemma fold_min_Min: "fold min xs (a::real) = Min (insert a (set xs))"
  using Min.set_eq_fold [of a xs] by simp

lemma fold_max_Max: "fold max xs (a::real) = Max (insert a (set xs))"
  using Max.set_eq_fold [of a xs] by simp

lemma calculateBounds_fold:
  "calculateBounds g =
     \<lparr>minLat = Min (insert 90 (snd ` set (geometry_vertices g))),
      maxLat = Max (insert (- 90) (snd ` set (geometry_vertices g))),
      minLon = Min (insert 180 (fst ` set (geometry_vertices g))),
      maxLon = Max (insert (- 180) (fst ` set (geometry_vertices g)))\<rparr>"
  by (cases "coordinates g")
     (simp_all add: calculateBounds_def geometry_vertices_def bounds_fold_vertices fold_min_Min fold_max_Max)

text \<open>
  C4. The bounds of a geometry are the running minimum and maximum of latitude and of
  longitude over all its vertices, started from 90, -90, 180 and -180. A geometry without
  vertices keeps that inverted tuple; with at least one vertex the minimum is at most the
  maximum on both axes; and when every vertex lies in the geographic range the bounds are
  the least and greatest latitude and longitude of the vertices.
\<close>

theorem calculateBounds_running_min_max:
  "calculateBounds g =
     \<lparr>minLat = Min (insert 90 (snd ` set (geometry_vertices g))),
      maxLat = Max (insert (- 90) (snd ` set (geometry_vertices g))),
      minLon = Min (insert 180 (fst ` set (geometry_vertices g))),
      maxLon = Max (insert (- 180) (fst ` set (geometry_vertices g)))\<rparr>
   \<and> (geometry_vertices g = [] \<longrightarrow>
        calculateBounds g = \<lparr>minLat = 90, maxLat = - 90, minLon = 180, maxLon = - 180\<rparr>)
   \<and> (geometry_vertices g \<noteq> [] \<longrightarrow>
        minLat (calculateBounds g) \<le> maxLat (calculateBounds g)
        \<and> minLon (calculateBounds g) \<le> maxLon (calculateBounds g))
   \<and> (geometry_vertices g \<noteq> []
        \<and> list_all (\<lambda>(lo, la). - 180 \<le> lo \<and> lo \<le> 180 \<and> - 90 \<le> la \<and> la \<le> 90) (geometry_vertices g) \<longrightarrow>
        calculateBounds g =
          \<lparr>minLat = Min (snd ` set (geometry_vertices g)), maxLat = Max (snd ` set (geometry_vertices g)),
           minLon = Min (fst ` set (geometry_vertices g)), maxLon = Max (fst ` set (geometry_vertices g))\<rparr>)"
proof -
  let ?vs = "geometry_vertices g"
  let ?las = "snd ` set ?vs" and ?los = "fst ` set ?vs"
  have eq: "calculateBounds g =
     \<lparr>minLat = Min (insert 90 ?las), maxLat = Max (insert (- 90) ?las),
      minLon = Min (insert 180 ?los), maxLon = Max (insert (- 180) ?los)\<rparr>"
    by (rule calculateBounds_fold)
  have empty: "calculateBounds g = \<lparr>minLat = 90, maxLat = - 90, minLon = 180, maxLon = - 180\<rparr>"
    if "?vs = []"
    using that by (simp add: eq)
  have ordered: "minLat (calculateBounds g) \<le> maxLat (calculateBounds g)
        \<and> minLon (calculateBounds g) \<le> maxLon (calculateBounds g)" if ne: "?vs \<noteq> []"
  proof -
    from ne obtain v where v: "v \<in> set ?vs" by (cases ?vs) auto
    have "Min (insert 90 ?las) \<le> snd v" using v by (intro Min_le) auto
    also have "snd v \<le> Max (insert (- 90) ?las)" using v by (intro Max_ge) auto
    finally have 1: "Min (insert 90 ?las) \<le> Max (insert (- 90) ?las)" .
    have "Min (insert 180 ?los) \<le> fst v" using v by (intro Min_le) auto
    also have "fst v \<le> Max (insert (- 180) ?los)" using v by (intro Max_ge) auto
    finally have 2: "Min (insert 180 ?los) \<le> Max (insert (- 180) ?los)" .
    show ?thesis using 1 2 by (simp add: eq)
  qed
  have inrange: "calculateBounds g =
          \<lparr>minLat = Min ?las, maxLat = Max ?las, minLon = Min ?los, maxLon = Max ?los\<rparr>"
    if ne: "?vs \<noteq> []"
      and rng: "list_all (\<lambda>(lo, la). - 180 \<le> lo \<and> lo \<le> 180 \<and> - 90 \<le> la \<and> la \<le> 90) ?vs"
  proof -
    have nel: "?las \<noteq> {}" "?los \<noteq> {}" "finite ?las" "finite ?los" using ne by auto
    have b: "\<And>v. v \<in> set ?vs \<Longrightarrow> - 180 \<le> fst v \<and> fst v \<le> 180 \<and> - 90 \<le> snd v \<and> snd v \<le> 90"
      using rng by (auto simp add: list_all_iff)
    have la: "\<And>y. y \<in> ?las \<Longrightarrow> - 90 \<le> y \<and> y \<le> 90"
      and lo: "\<And>x. x \<in> ?los \<Longrightarrow> - 180 \<le> x \<and> x \<le> 180"
      using b by auto
    have "Min ?las \<in> ?las" "Max ?las \<in> ?las" "Min ?los \<in> ?los" "Max ?los \<in> ?los"
      using nel by (blast intro: Min_in Max_in)+
    then have bnd: "Min ?las \<le> 90" "- 90 \<le> Max ?las" "Min ?los \<le> 180" "- 180 \<le> Max ?los"
      using la lo by blast+
    have "Min (insert 90 ?las) = min 90 (Min ?las)"
      by (rule Min_insert) (use nel in auto)
    then have 1: "Min (insert 90 ?las) = Min ?las"
      using bnd by simp
    have "Max (insert (- 90) ?las) = max (- 90) (Max ?las)"
      by (rule Max_insert) (use nel in auto)
    then have 2: "Max (insert (- 90) ?las) = Max ?las"
      using bnd by simp
    have "Min (insert 180 ?los) = min 180 (Min ?los)"
      by (rule Min_insert) (use nel in auto)
    then have 3: "Min (insert 180 ?los) = Min ?los"
      using bnd by simp
    have "Max (insert (- 180) ?los) = max (- 180) (Max ?los)"
      by (rule Max_insert) (use nel in auto)
    then have 4: "Max (insert (- 180) ?los) = Max ?los"
      using bnd by simp
    show ?thesis unfolding eq 1 2 3 4 ..
  qed
  show ?thesis using eq empty ordered inrange by blast
qed

theorem calculateBounds_running_min_max_witness:
  "calculateBounds square = \<lparr>minLat = 0, maxLat = 10, minLon = 0, maxLon = 10\<rparr>
   \<and> geometry_vertices square \<noteq> []
   \<and> minLat (calculateBounds square) \<le> maxLat (calculateBounds square)
   \<and> minLon (calculateBounds square) \<le> maxLon (calculateBounds square)
   \<and> calculateBounds empty_polygon = \<lparr>minLat = 90, maxLat = - 90, minLon = 180, maxLon = - 180\<rparr>"
  using calculateBounds_running_min_max [of square] calculateBounds_running_min_max [of empty_polygon]
  by (simp add: square_def empty_polygon_def geometry_vertices_def)

section \<open>Properties of loading\<close>

lemma find_snoc:
  "find P (xs @ [a]) = (case find P xs of None \<Rightarrow> (if P a then Some a else None) | Some x \<Rightarrow> Some x)"
  by (induction xs) simp_all

lemma processFeature_Inr:
  "processFeature ft k = Inr c \<Longrightarrow>
     c_id c = (case f_id ft of None \<Rightarrow> IdNum (int k) | Some d \<Rightarrow> if truthy_id d then d else IdNum (int k))
     \<and> c_name c = (case declared_name ft of
                     None \<Rightarrow> ''Country '' @ show_nat k
                   | Some n \<Rightarrow> if n \<noteq> [] then n else ''Country '' @ show_nat k)
     \<and> f_geometry ft = Some (c_geometry c)
     \<and> c_centroid c = calculateCentroid (c_geometry c)
     \<and> c_bounds c = calculateBounds (c_geometry c)"
  by (auto simp add: processFeature_def declared_name_def Let_def split: option.splits)

lemma processFeature_total:
  "f_geometry ft \<noteq> None \<Longrightarrow> \<exists>c. processFeature ft k = Inr c"
  by (auto simp add: processFeature_def Let_def split: option.splits)

lemma processFeature_null:
  "f_geometry ft = None \<Longrightarrow> processFeature ft k = Inl TypeError"
  by (simp add: processFeature_def Let_def)

lemma mapFeatures_Inr:
  "mapFeatures i fts = Inr cd \<Longrightarrow>
     length cd = length fts \<and> (\<forall>k<length fts. processFeature (fts ! k) (i + k) = Inr (cd ! k))"
proof (induction fts arbitrary: i cd)
  case Nil
  then show ?case by simp
next
  case (Cons ft fts)
  from Cons.prems obtain c cs where c: "processFeature ft i = Inr c"
    and cs: "mapFeatures (Suc i) fts = Inr cs" and cd: "cd = c # cs"
    by (auto split: sum.splits)
  from Cons.IH [OF cs] have len: "length cs = length fts"
    and rest: "\<And>k. k < length fts \<Longrightarrow> processFeature (fts ! k) (Suc i + k) = Inr (cs ! k)"
    by auto
  show ?case
  proof (intro conjI allI impI)
    show "length cd = length (ft # fts)" using len cd by simp
  next
    fix k assume "k < length (ft # fts)"
    then show "processFeature ((ft # fts) ! k) (i + k) = Inr (cd ! k)"
      using c rest cd by (cases k) auto
  qed
qed

lemma mapFeatures_total:
  "list_all (\<lambda>ft. f_geometry ft \<noteq> None) fts \<Longrightarrow> \<exists>cd. mapFeatures i fts = Inr cd"
proof (induction fts arbitrary: i)
  case Nil
  show ?case by simp
next
  case (Cons ft fts)
  then obtain c where "processFeature ft i = Inr c"
    using processFeature_total [of ft i] by auto
  moreover obtain cs where "mapFeatures (Suc i) fts = Inr cs"
    using Cons by auto
  ultimately show ?case by simp
qed

lemma fst_setLookup:
  "fst (setLookup a maps) k = (if k = c_id a then Some a else fst maps k)"
  by (cases maps) (simp add: setLookup_def)

lemma buildLookup_fold_byId:
  "fst (fold setLookup cs maps) k
     = (case find (\<lambda>c. c_id c = k) (rev cs) of None \<Rightarrow> fst maps k | Some c \<Rightarrow> Some c)"
proof (induction cs arbitrary: maps)
  case Nil
  show ?case by simp
next
  case (Cons a cs)
  show ?case
    by (auto simp add: Cons.IH find_snoc fst_setLookup split: option.splits)
qed

lemma buildLookup_byId:
  "fst (buildLookup cs) k = find (\<lambda>c. c_id c = k) (rev cs)"
  by (simp add: buildLookup_def buildLookup_fold_byId split: option.splits)

lemma mapFeatures_geometry:
  assumes "mapFeatures i fts = Inr cd"
  shows "map f_geometry fts = map (\<lambda>c. Some (c_geometry c)) cd"
proof (rule nth_equalityI)
  show "length (map f_geometry fts) = length (map (\<lambda>c. Some (c_geometry c)) cd)"
    using mapFeatures_Inr [OF assms] by simp
next
  fix k assume "k < length (map f_geometry fts)"
  then have k: "k < length fts" by simp
  then have "processFeature (fts ! k) (i + k) = Inr (cd ! k)"
    using mapFeatures_Inr [OF assms] by blast
  then have "f_geometry (fts ! k) = Some (c_geometry (cd ! k))"
    by (rule processFeature_Inr [THEN conjunct2, THEN conjunct2, THEN conjunct1])
  then show "map f_geometry fts ! k = map (\<lambda>c. Some (c_geometry c)) cd ! k"
    using k mapFeatures_Inr [OF assms] by simp
qed

lemma createCountryMeshes_geometry:
  "map c_geometry cs = map c_geometry cs' \<Longrightarrow>
     fst (createCountryMeshes cs grp) = fst (createCountryMeshes cs' grp')"
proof (induction cs arbitrary: cs' grp grp')
  case Nil
  then show ?case by simp
next
  case (Cons c cs)
  then obtain c' cs'' where cs': "cs' = c' # cs''" and g: "c_geometry c = c_geometry c'"
    and rest: "map c_geometry cs = map c_geometry cs''"
    by (cases cs') auto
  show ?case
  proof (cases "geometryToLines (c_geometry c)")
    case (Inl e)
    then show ?thesis by (simp add: cs' g [symmetric])
  next
    case (Inr ls)
    then show ?thesis
      using Cons.IH [OF rest, of "grp @ ls" "grp' @ ls"] by (simp add: cs' g [symmetric])
  qed
qed

lemma createCountryMeshes_square:
  "list_all (\<lambda>c. c_geometry c = square) cs \<Longrightarrow> fst (createCountryMeshes cs grp) = None"
proof (induction cs arbitrary: grp)
  case Nil
  show ?case by simp
next
  case (Cons c cs)
  then have g: "c_geometry c = square" and rest: "list_all (\<lambda>c. c_geometry c = square) cs"
    by simp_all
  have "\<exists>ls. geometryToLines square = Inr ls"
    by (simp add: geometryToLines_def square_def Let_def)
  then obtain ls where "geometryToLines square = Inr ls" ..
  then show ?case
    using Cons.IH [OF rest, of "grp @ ls"] by (simp add: g)
qed

lemma load_Inl:
  assumes "mapFeatures 0 features = Inl e"
  shows "load st features painted = (Inl e, st\<lparr>loaded := False\<rparr>)"
  using assms by (simp add: load_def Let_def)

lemma load_published:
  assumes "mapFeatures 0 features = Inr cd"
  shows "countryData (snd (load st features painted)) = cd"
    and "loaded (snd (load st features painted))"
    and "byId (snd (load st features painted)) = fst (buildLookup cd)"
  using assms by (simp_all add: load_def Let_def split: prod.splits option.splits)

lemma load_returns:
  assumes "mapFeatures 0 features = Inr cd"
  shows "fst (load st features painted) =
           (case fst (createCountryMeshes cd []) of None \<Rightarrow> Inr cd | Some e \<Rightarrow> Inl e)"
  using assms by (simp add: load_def Let_def split: prod.splits option.splits)

lemma load_canvas:
  assumes "mapFeatures 0 features = Inr cd" and "fst (createCountryMeshes cd []) = None"
  shows "lookupCanvas (snd (load st features painted)) =
           Some \<lparr>width = 2048, height = 2048, getImageData = painted\<rparr>"
  using assms by (cases "createCountryMeshes cd []") (simp add: load_def Let_def split: prod.splits)

lemma load_square:
  assumes "mapFeatures 0 features = Inr cd" and "list_all (\<lambda>c. c_geometry c = square) cd"
  shows "fst (load st features painted) = Inr cd"
    and "lookupCanvas (snd (load st features painted)) =
           Some \<lparr>width = 2048, height = 2048, getImageData = painted\<rparr>"
proof -
  have none: "fst (createCountryMeshes cd []) = None"
    using assms(2) by (rule createCountryMeshes_square)
  show "fst (load st features painted) = Inr cd"
    by (simp add: load_returns [OF assms(1)] none)
  show "lookupCanvas (snd (load st features painted)) =
           Some \<lparr>width = 2048, height = 2048, getImageData = painted\<rparr>"
    using assms(1) none by (rule load_canvas)
qed

lemma nonnull_map:
  "list_all (\<lambda>ft. f_geometry ft \<noteq> None) fts = list_all (\<lambda>g. g \<noteq> None) (map f_geometry fts)"
  by (induction fts) simp_all

lemma mapFeatures_null:
  "\<not> list_all (\<lambda>ft. f_geometry ft \<noteq> None) fts \<Longrightarrow> mapFeatures i fts = Inl TypeError"
proof (induction fts arbitrary: i)
  case Nil
  then show ?case by simp
next
  case (Cons ft fts)
  show ?case
  proof (cases "f_geometry ft")
    case None
    then show ?thesis by (simp add: processFeature_null)
  next
    case (Some g)
    then have "\<not> list_all (\<lambda>ft. f_geometry ft \<noteq> None) fts" using Cons.prems by simp
    then have "mapFeatures (Suc i) fts = Inl TypeError" by (rule Cons.IH)
    moreover obtain c where "processFeature ft i = Inr c"
      using processFeature_total [of ft i] Some by auto
    ultimately show ?thesis by simp
  qed
qed

lemma load_isl_geometry:
  assumes "map f_geometry features' = map f_geometry features"
  shows "isl (fst (load st features' painted)) = isl (fst (load st features painted))"
proof (cases "mapFeatures 0 features")
  case (Inl e)
  have "\<not> list_all (\<lambda>ft. f_geometry ft \<noteq> None) features"
  proof
    assume "list_all (\<lambda>ft. f_geometry ft \<noteq> None) features"
    then obtain cd where "mapFeatures 0 features = Inr cd"
      using mapFeatures_total by blast
    then show False using Inl by simp
  qed
  then have "\<not> list_all (\<lambda>ft. f_geometry ft \<noteq> None) features'"
    unfolding nonnull_map assms .
  then have "mapFeatures 0 features' = Inl TypeError" by (rule mapFeatures_null)
  then show ?thesis using Inl by (simp add: load_Inl)
next
  case (Inr cd)
  have "list_all (\<lambda>ft. f_geometry ft \<noteq> None) features"
  proof (rule ccontr)
    assume "\<not> list_all (\<lambda>ft. f_geometry ft \<noteq> None) features"
    then have "mapFeatures 0 features = Inl TypeError" by (rule mapFeatures_null)
    then show False using Inr by simp
  qed
  then have "list_all (\<lambda>ft. f_geometry ft \<noteq> None) features'"
    unfolding nonnull_map assms .
  then obtain cd' where cd': "mapFeatures 0 features' = Inr cd'"
    using mapFeatures_total by blast
  have "map (\<lambda>c. Some (c_geometry c)) cd' = map (\<lambda>c. Some (c_geometry c)) cd"
    using mapFeatures_geometry [OF cd'] mapFeatures_geometry [OF Inr] assms by simp
  then have "map the (map (\<lambda>c. Some (c_geometry c)) cd') = map the (map (\<lambda>c. Some (c_geometry c)) cd)"
    by simp
  then have "map c_geometry cd' = map c_geometry cd" by (simp add: comp_def)
  then have "fst (createCountryMeshes cd' []) = fst (createCountryMeshes cd [])"
    by (rule createCountryMeshes_geometry)
  then show ?thesis
    by (simp add: load_returns [OF cd'] load_returns [OF Inr] split: option.splits)
qed

lemma mapFeatures_examples:
  "mapFeatures 0 [feature_out_of_range, feature_plain] =
     Inr [\<lparr>c_id = IdNum 16777216, c_name = ''Testland'', c_geometry = square,
            c_centroid = calculateCentroid square, c_bounds = calculateBounds square\<rparr>,
          \<lparr>c_id = IdNum 1, c_name = ''Country 1'', c_geometry = square,
            c_centroid = calculateCentroid square, c_bounds = calculateBounds square\<rparr>]"
  "mapFeatures 0 [feature_seven ''First'', feature_seven ''Second''] =
     Inr [\<lparr>c_id = IdNum 7, c_name = ''First'', c_geometry = square,
            c_centroid = calculateCentroid square, c_bounds = calculateBounds square\<rparr>,
          \<lparr>c_id = IdNum 7, c_name = ''Second'', c_geometry = square,
            c_centroid = calculateCentroid square, c_bounds = calculateBounds square\<rparr>]"
  "mapFeatures 0 [feature_seven ''Testland''] =
     Inr [\<lparr>c_id = IdNum 7, c_name = ''Testland'', c_geometry = square,
            c_centroid = calculateCentroid square, c_bounds = calculateBounds square\<rparr>]"
  "mapFeatures 0 [feature_out_of_range] =
     Inr [\<lparr>c_id = IdNum 16777216, c_name = ''Testland'', c_geometry = square,
            c_centroid = calculateCentroid square, c_bounds = calculateBounds square\<rparr>]"
  "mapFeatures 0 [feature_plain, feature_plain] =
     Inr [\<lparr>c_id = IdNum 0, c_name = ''Country 0'', c_geometry = square,
            c_centroid = calculateCentroid square, c_bounds = calculateBounds square\<rparr>,
          \<lparr>c_id = IdNum 1, c_name = ''Country 1'', c_geometry = square,
            c_centroid = calculateCentroid square, c_bounds = calculateBounds square\<rparr>]"
  by (simp_all add: processFeature_def feature_out_of_range_def feature_plain_def feature_seven_def
        show_nat.simps digit_char_def)

lemma load_examples:
  "fst (load st [feature_out_of_range, feature_plain] painted) =
     Inr [\<lparr>c_id = IdNum 16777216, c_name = ''Testland'', c_geometry = square,
            c_centroid = calculateCentroid square, c_bounds = calculateBounds square\<rparr>,
          \<lparr>c_id = IdNum 1, c_name = ''Country 1'', c_geometry = square,
            c_centroid = calculateCentroid square, c_bounds = calculateBounds square\<rparr>]"
  "fst (load st [feature_seven ''First'', feature_seven ''Second''] painted) =
     Inr [\<lparr>c_id = IdNum 7, c_name = ''First'', c_geometry = square,
            c_centroid = calculateCentroid square, c_bounds = calculateBounds square\<rparr>,
          \<lparr>c_id = IdNum 7, c_name = ''Second'', c_geometry = square,
            c_centroid = calculateCentroid square, c_bounds = calculateBounds square\<rparr>]"
  "fst (load st [feature_seven ''Testland''] painted) =
     Inr [\<lparr>c_id = IdNum 7, c_name = ''Testland'', c_geometry = square,
            c_centroid = calculateCentroid square, c_bounds = calculateBounds square\<rparr>]"
  "fst (load st [feature_out_of_range] painted) =
     Inr [\<lparr>c_id = IdNum 16777216, c_name = ''Testland'', c_geometry = square,
            c_centroid = calculateCentroid square, c_bounds = calculateBounds square\<rparr>]"
  "fst (load st [feature_plain, feature_plain] painted) =
     Inr [\<lparr>c_id = IdNum 0, c_name = ''Country 0'', c_geometry = square,
            c_centroid = calculateCentroid square, c_bounds = calculateBounds square\<rparr>,
          \<lparr>c_id = IdNum 1, c_name = ''Country 1'', c_geometry = square,
            c_centroid = calculateCentroid square, c_bounds = calculateBounds square\<rparr>]"
  by (rule load_square [OF mapFeatures_examples(1)] load_square [OF mapFeatures_examples(2)]
        load_square [OF mapFeatures_examples(3)] load_square [OF mapFeatures_examples(4)]
        load_square [OF mapFeatures_examples(5)], simp)+

lemma load_no_coordinates:
  "mapFeatures 0 [feature_no_coordinates] =
     Inr [\<lparr>c_id = IdNum 3, c_name = ''Country 0'',
            c_geometry = \<lparr>gtype = ''Polygon'', coordinates = None\<rparr>,
            c_centroid = \<lparr>lat = 0, lon = 0\<rparr>,
            c_bounds = \<lparr>minLat = 90, maxLat = - 90, minLon = 180, maxLon = - 180\<rparr>\<rparr>]"
  "fst (load st [feature_no_coordinates] painted) = Inl TypeError"
  "lookupCanvas (snd (load st [feature_no_coordinates] painted)) = lookupCanvas st"
proof -
  show m: "mapFeatures 0 [feature_no_coordinates] =
     Inr [\<lparr>c_id = IdNum 3, c_name = ''Country 0'',
            c_geometry = \<lparr>gtype = ''Polygon'', coordinates = None\<rparr>,
            c_centroid = \<lparr>lat = 0, lon = 0\<rparr>,
            c_bounds = \<lparr>minLat = 90, maxLat = - 90, minLon = 180, maxLon = - 180\<rparr>\<rparr>]"
    by (simp add: processFeature_def feature_no_coordinates_def show_nat.simps digit_char_def
          calculateCentroid_def calculateBounds_def)
  show "fst (load st [feature_no_coordinates] painted) = Inl TypeError"
    by (simp add: load_returns [OF m] geometryToLines_def)
  show "lookupCanvas (snd (load st [feature_no_coordinates] painted)) = lookupCanvas st"
    unfolding load_def m by (simp add: geometryToLines_def Let_def split: prod.splits)
qed

lemma load_seven_canvas:
  "lookupCanvas (snd (load st [feature_seven ''Testland''] painted)) =
     Some \<lparr>width = 2048, height = 2048, getImageData = painted\<rparr>"
  by (rule load_square [OF mapFeatures_examples(3)]) simp

lemma find_rev_id:
  assumes "k < length cd"
  shows "\<exists>c. find (\<lambda>c. c_id c = c_id (cd ! k)) (rev cd) = Some c \<and> c_id c = c_id (cd ! k)"
proof (cases "find (\<lambda>c. c_id c = c_id (cd ! k)) (rev cd)")
  case None
  then have "\<And>x. x \<in> set cd \<Longrightarrow> c_id x \<noteq> c_id (cd ! k)" by (auto simp add: find_None_iff)
  then show ?thesis using nth_mem [OF assms] by blast
next
  case (Some c)
  then have "c_id c = c_id (cd ! k)" by (auto simp add: find_Some_iff)
  then show ?thesis using Some by simp
qed

lemma bytes_sum:
  assumes "0 \<le> r" "r < 2 ^ 8" "0 \<le> g" "g < 2 ^ 8" "0 \<le> b" "b < 2 ^ 8"
  shows "push_bit 16 r OR push_bit 8 g OR b = 65536 * r + 256 * g + (b::int)"
proof -
  have t: "take_bit 8 r = r" "take_bit 8 g = g" "take_bit 8 b = b"
    using assms by (simp_all add: take_bit_int_eq_self)
  have d1: "push_bit 8 (take_bit 8 g) AND take_bit 8 b = 0"
    by (rule bit_eqI) (auto simp add: bit_simps)
  have d2: "push_bit 16 (take_bit 8 r) AND (push_bit 8 (take_bit 8 g) OR take_bit 8 b) = 0"
    by (rule bit_eqI) (auto simp add: bit_simps)
  have "push_bit 16 r OR (push_bit 8 g OR b) = push_bit 16 r + (push_bit 8 g + b)"
    using d1 d2 unfolding t by (simp add: disjunctive_add_eq_or)
  then show ?thesis by (simp add: push_bit_eq_mult)
qed

lemma colorToId_uint:
  "colorToId (uint (r::8 word)) (uint (g::8 word)) (uint (b::8 word))
     = 65536 * uint r + 256 * uint g + uint b"
proof -
  have bnd: "\<And>w::8 word. 0 \<le> uint w" "\<And>w::8 word. uint w < 2 ^ 8"
    using uint_lt2p [where 'a = 8] by simp_all
  have "colorToId (uint r) (uint g) (uint b) = push_bit 16 (uint r) OR push_bit 8 (uint g) OR uint b"
    by (intro colorToId_bytes bnd)
  also have "\<dots> = 65536 * uint r + 256 * uint g + uint b"
    by (intro bytes_sum bnd)
  finally show ?thesis .
qed

subsection \<open>Identifiers and names assigned at ingestion\<close>

text \<open>
  C5, as the code has it. When no record has a null geometry, ingestion produces exactly
  one country per record, in input order, and publishes them. Its identifier is the
  record's declared identifier whenever that is present and truthy (a non-zero number
  or a non-empty string, whatever its range), and the record's zero-based position
  otherwise. Its name is the declared name when present and non-empty, and the
  placeholder "Country N" with N the position otherwise. Loading returns these countries
  unless building the border meshes throws.
\<close>

theorem load_ingests_each_record:
  assumes "list_all (\<lambda>ft. f_geometry ft \<noteq> None) features"
  shows "\<exists>cd. mapFeatures 0 features = Inr cd
     \<and> fst (load st features painted) =
           (case fst (createCountryMeshes cd []) of None \<Rightarrow> Inr cd | Some e \<Rightarrow> Inl e)
     \<and> countryData (snd (load st features painted)) = cd
     \<and> length cd = length features
     \<and> (\<forall>k<length features.
          c_id (cd ! k) =
            (case f_id (features ! k) of
               None \<Rightarrow> IdNum (int k)
             | Some d \<Rightarrow> if truthy_id d then d else IdNum (int k))
        \<and> c_name (cd ! k) =
            (case declared_name (features ! k) of
               None \<Rightarrow> ''Country '' @ show_nat k
             | Some n \<Rightarrow> if n \<noteq> [] then n else ''Country '' @ show_nat k)
        \<and> f_geometry (features ! k) = Some (c_geometry (cd ! k)))"
proof -
  from assms obtain cd where m: "mapFeatures 0 features = Inr cd"
    using mapFeatures_total by blast
  from mapFeatures_Inr [OF m] have len: "length cd = length features"
    and each: "\<And>k. k < length features \<Longrightarrow> processFeature (features ! k) k = Inr (cd ! k)"
    by auto
  show ?thesis
  proof (intro exI [of _ cd] conjI allI impI)
    show "mapFeatures 0 features = Inr cd" by (rule m)
    show "fst (load st features painted) =
           (case fst (createCountryMeshes cd []) of None \<Rightarrow> Inr cd | Some e \<Rightarrow> Inl e)"
      by (rule load_returns [OF m])
    show "countryData (snd (load st features painted)) = cd" by (rule load_published [OF m])
    show "length cd = length features" by (rule len)
  next
    fix k assume k: "k < length features"
    note p = processFeature_Inr [OF each [OF k]]
    show "c_id (cd ! k) =
            (case f_id (features ! k) of
               None \<Rightarrow> IdNum (int k)
             | Some d \<Rightarrow> if truthy_id d then d else IdNum (int k))" using p by blast
    show "c_name (cd ! k) =
            (case declared_name (features ! k) of
               None \<Rightarrow> ''Country '' @ show_nat k
             | Some n \<Rightarrow> if n \<noteq> [] then n else ''Country '' @ show_nat k)" using p by blast
    show "f_geometry (features ! k) = Some (c_geometry (cd ! k))" using p by blast
  qed
qed

theorem load_ingests_each_record_witness:
  "list_all (\<lambda>ft. f_geometry ft \<noteq> None) [feature_out_of_range, feature_plain]
   \<and> map c_id (countryData (snd (load initial_state [feature_out_of_range, feature_plain] blank)))
       = [IdNum 16777216, IdNum 1]
   \<and> map c_name (countryData (snd (load initial_state [feature_out_of_range, feature_plain] blank)))
       = [''Testland'', ''Country 1'']
   \<and> map_sum id (map c_id) (fst (load initial_state [feature_out_of_range, feature_plain] blank))
       = Inr [IdNum 16777216, IdNum 1]
   \<and> list_all (\<lambda>ft. f_geometry ft \<noteq> None) [feature_no_coordinates]
   \<and> map c_id (countryData (snd (load initial_state [feature_no_coordinates] blank))) = [IdNum 3]
   \<and> fst (load initial_state [feature_no_coordinates] blank) = Inl TypeError"
  using load_ingests_each_record [of "[feature_out_of_range, feature_plain]" initial_state blank]
    load_ingests_each_record [of "[feature_no_coordinates]" initial_state blank]
  by (simp add: load_published [OF mapFeatures_examples(1)] load_examples
        load_published [OF load_no_coordinates(1)] load_no_coordinates(2))
     (simp add: feature_out_of_range_def feature_plain_def feature_no_coordinates_def)

text \<open>
  The claim as the specification words it (an identifier out of the valid range is
  replaced by the position) fails for a record that declares \<open>2^24\<close>: the declared
  value is kept.
\<close>

theorem load_assigned_id_counterexample:
  "map c_id (countryData (snd (load initial_state [feature_out_of_range] blank)))
     \<noteq> [spec_assigned_id feature_out_of_range 0]"
  unfolding load_published [OF mapFeatures_examples(4)]
  by (simp add: feature_out_of_range_def spec_assigned_id_def spec_valid_id_def)

subsection \<open>No range check on declared identifiers\<close>

text \<open>
  C6, as the code has it. Loading applies no range check to declared identifiers. A
  record that declares a numeric identifier of \<open>2^24 - 1\<close> or more, in a batch whose
  records all have a geometry, is ingested with that identifier, published, and
  resolvable under it through \<open>byId\<close>. A declared identifier never makes loading
  fail: whether loading throws is the same for any two batches with the same
  geometries, whatever identifiers they declare.
\<close>

theorem load_applies_no_range_check:
  "(list_all (\<lambda>ft. f_geometry ft \<noteq> None) features \<longrightarrow>
      (\<exists>cd. mapFeatures 0 features = Inr cd
         \<and> countryData (snd (load st features painted)) = cd
         \<and> loaded (snd (load st features painted))
         \<and> length cd = length features
         \<and> (\<forall>k<length features. \<forall>n. f_id (features ! k) = Some (IdNum n) \<and> 2 ^ 24 - 1 \<le> n \<longrightarrow>
               c_id (cd ! k) = IdNum n
               \<and> (\<exists>c. byId (snd (load st features painted)) (IdNum n) = Some c \<and> c_id c = IdNum n))))
   \<and> (\<forall>features'. map f_geometry features' = map f_geometry features \<longrightarrow>
         isl (fst (load st features' painted)) = isl (fst (load st features painted)))"
proof (intro conjI impI allI)
  assume nonnull: "list_all (\<lambda>ft. f_geometry ft \<noteq> None) features"
  then obtain cd where m: "mapFeatures 0 features = Inr cd"
    using mapFeatures_total by blast
  from mapFeatures_Inr [OF m] have len: "length cd = length features"
    and each: "\<And>k. k < length features \<Longrightarrow> processFeature (features ! k) k = Inr (cd ! k)"
    by auto
  have kept: "c_id (cd ! k) = IdNum n
      \<and> (\<exists>c. byId (snd (load st features painted)) (IdNum n) = Some c \<and> c_id c = IdNum n)"
    if k: "k < length features" and d: "f_id (features ! k) = Some (IdNum n) \<and> 2 ^ 24 - 1 \<le> n" for k n
  proof -
    have "n \<noteq> 0" using d by auto
    then have i: "c_id (cd ! k) = IdNum n"
      using processFeature_Inr [OF each [OF k]] d by simp
    have "\<exists>c. find (\<lambda>c. c_id c = c_id (cd ! k)) (rev cd) = Some c \<and> c_id c = c_id (cd ! k)"
      using k len by (intro find_rev_id) simp
    then show ?thesis using i by (simp add: load_published [OF m] buildLookup_byId)
  qed
  show "\<exists>cd. mapFeatures 0 features = Inr cd
         \<and> countryData (snd (load st features painted)) = cd
         \<and> loaded (snd (load st features painted))
         \<and> length cd = length features
         \<and> (\<forall>k<length features. \<forall>n. f_id (features ! k) = Some (IdNum n) \<and> 2 ^ 24 - 1 \<le> n \<longrightarrow>
               c_id (cd ! k) = IdNum n
               \<and> (\<exists>c. byId (snd (load st features painted)) (IdNum n) = Some c \<and> c_id c = IdNum n))"
    using m len kept load_published [OF m, of st painted] by (intro exI [of _ cd]) simp
next
  fix features' :: "feature list"
  assume "map f_geometry features' = map f_geometry features"
  then show "isl (fst (load st features' painted)) = isl (fst (load st features painted))"
    by (rule load_isl_geometry)
qed

theorem load_applies_no_range_check_witness:
  "list_all (\<lambda>ft. f_geometry ft \<noteq> None) [feature_out_of_range, feature_plain]
   \<and> map c_id (countryData (snd (load initial_state [feature_out_of_range, feature_plain] blank)))
       = [IdNum 16777216, IdNum 1]
   \<and> map_option c_name
        (byId (snd (load initial_state [feature_out_of_range, feature_plain] blank)) (IdNum 16777216))
       = Some ''Testland''
   \<and> map f_geometry [feature_plain, feature_plain] = map f_geometry [feature_out_of_range, feature_plain]
   \<and> isl (fst (load initial_state [feature_plain, feature_plain] blank))
       = isl (fst (load initial_state [feature_out_of_range, feature_plain] blank))"
  using load_applies_no_range_check [of "[feature_out_of_range, feature_plain]" initial_state blank]
  by (simp add: load_published [OF mapFeatures_examples(1)] load_examples buildLookup_byId)
     (simp add: feature_out_of_range_def feature_plain_def)

text \<open>
  A batch whose only record declares \<open>2^24\<close> is loaded, published and resolvable.
\<close>

theorem load_out_of_range_counterexample:
  "f_id feature_out_of_range = Some (IdNum (2 ^ 24))
   \<and> (case fst (load initial_state [feature_out_of_range] blank) of
        Inl e \<Rightarrow> False
      | Inr cd \<Rightarrow> map c_id cd = [IdNum (2 ^ 24)])
   \<and> loaded (snd (load initial_state [feature_out_of_range] blank))
   \<and> map_option c_name (byId (snd (load initial_state [feature_out_of_range] blank)) (IdNum (2 ^ 24)))
       = Some ''Testland''"
  by (simp add: load_published [OF mapFeatures_examples(4)] load_examples buildLookup_byId)
     (simp add: feature_out_of_range_def)

subsection \<open>Duplicate identifiers in the lookup map\<close>




section \<open>Properties of picking\<close>

text \<open>
  C10. While the lookup canvas has not been built, \<^verbatim>\<open>getCountryAtUV\<close> returns null
  for every uv.
\<close>

theorem getCountryAtUV_before_build:
  "lookupCanvas st = None \<Longrightarrow> getCountryAtUV st uv = None"
  by (simp add: getCountryAtUV_def)

theorem getCountryAtUV_before_build_witness:
  "lookupCanvas initial_state = None \<and> getCountryAtUV initial_state (Vector2 (1 / 2) (1 / 2)) = None"
  using getCountryAtUV_before_build [of initial_state "Vector2 (1 / 2) (1 / 2)"]
  by (simp add: initial_state_def)

text \<open>
  C1. In every state whose lookup canvas is built and whose \<open>byId\<close> map is the one
  that loading builds from the countries, \<^verbatim>\<open>getCountryAtUV\<close> reads the pixel at
  \<open>x = \<lfloor>u * width\<rfloor>\<close>, \<open>y = \<lfloor>(1 - v) * height\<rfloor>\<close>. If its three colour channels
  are all 0 the result is null. Otherwise the result is the country whose identifier
  is the number \<open>(r << 16) | (g << 8) | b\<close>, that is \<open>65536 r + 256 g + b\<close> (the last
  such country in input order), or null when no country has that identifier.
\<close>

theorem getCountryAtUV_samples_pixel:
  assumes "lookupCanvas st = Some cv"
    and "byId st = fst (buildLookup (countryData st))"
  shows "getCountryAtUV st (Vector2 u v) =
         (case getImageData cv \<lfloor>u * real (width cv)\<rfloor> \<lfloor>(1 - v) * real (height cv)\<rfloor> of
            (r, g, b, a) \<Rightarrow>
              if r = 0 \<and> g = 0 \<and> b = 0 then None
              else find (\<lambda>c. c_id c = IdNum (65536 * uint r + 256 * uint g + uint b))
                     (rev (countryData st)))"
  by (simp add: getCountryAtUV_def assms buildLookup_byId colorToId_uint split: prod.splits)

theorem getCountryAtUV_samples_pixel_witness:
  "lookupCanvas state_4x2 = Some canvas_4x2
   \<and> byId state_4x2 = fst (buildLookup (countryData state_4x2))
   \<and> getCountryAtUV state_4x2 (Vector2 (9 / 10) (9 / 10)) = Some country_66051
   \<and> getCountryAtUV state_4x2 (Vector2 (1 / 10) (9 / 10)) = None
   \<and> getCountryAtUV state_4x2 (Vector2 (9 / 10) (1 / 10)) = None
   \<and> lookupCanvas (snd (load initial_state [feature_seven ''Testland''] painted_seven))
       = Some \<lparr>width = 2048, height = 2048, getImageData = painted_seven\<rparr>
   \<and> map_option c_name
        (getCountryAtUV (snd (load initial_state [feature_seven ''Testland''] painted_seven))
           (Vector2 (185 / 360) (95 / 180))) = Some ''Testland''
   \<and> getCountryAtUV (snd (load initial_state [feature_seven ''Testland''] painted_seven))
           (Vector2 (230 / 360) (140 / 180)) = None"
  using getCountryAtUV_samples_pixel [of state_4x2 canvas_4x2 "9 / 10" "9 / 10"]
    getCountryAtUV_samples_pixel [of state_4x2 canvas_4x2 "1 / 10" "9 / 10"]
    getCountryAtUV_samples_pixel [of state_4x2 canvas_4x2 "9 / 10" "1 / 10"]
    getCountryAtUV_samples_pixel [of "snd (load initial_state [feature_seven ''Testland''] painted_seven)"
       "\<lparr>width = 2048, height = 2048, getImageData = painted_seven\<rparr>" "185 / 360" "95 / 180"]
    getCountryAtUV_samples_pixel [of "snd (load initial_state [feature_seven ''Testland''] painted_seven)"
       "\<lparr>width = 2048, height = 2048, getImageData = painted_seven\<rparr>" "230 / 360" "140 / 180"]
  by (simp add: state_4x2_def canvas_4x2_def country_66051_def painted_seven_def
        load_published [OF mapFeatures_examples(3)] load_seven_canvas buildLookup_byId)

section \<open>Projection and unprojection\<close>

lemma atan2_scale:
  assumes "0 < s"
  shows "atan2 (s * y) (s * x) = atan2 y x"
  using assms by (simp add: atan2_def zero_less_mult_iff mult_less_0_iff zero_le_mult_iff)

lemma atan2_sin_cos:
  assumes "- pi < t" "t \<le> pi"
  shows "atan2 (sin t) (cos t) = t"
proof -
  consider "- (pi / 2) < t" "t < pi / 2" | "t = pi / 2" | "t = - (pi / 2)"
    | "pi / 2 < t" | "t < - (pi / 2)"
    by linarith
  then show ?thesis
  proof cases
    case 1
    then have "0 < cos t" by (rule cos_gt_zero_pi)
    moreover have "arctan (sin t / cos t) = t"
      using arctan_tan [OF 1] by (simp add: tan_def)
    ultimately show ?thesis by (simp add: atan2_def)
  next
    case 2
    show ?thesis unfolding 2 by (simp add: atan2_def)
  next
    case 3
    show ?thesis unfolding 3 by (simp add: atan2_def)
  next
    case 4
    have r: "- (pi / 2) < t - pi" "t - pi < pi / 2" using 4 assms by linarith+
    have "0 < cos (t - pi)" using r by (rule cos_gt_zero_pi)
    then have c: "cos t < 0" by simp
    have "0 \<le> sin t" using 4 assms pi_gt_zero by (intro sin_ge_zero) linarith+
    moreover have "arctan (sin t / cos t) = t - pi"
      using arctan_tan [OF r] by (simp add: tan_def)
    ultimately show ?thesis using c by (simp add: atan2_def)
  next
    case 5
    have r: "- (pi / 2) < t + pi" "t + pi < pi / 2" using 5 assms by linarith+
    have "0 < cos (t + pi)" using r by (rule cos_gt_zero_pi)
    then have c: "cos t < 0" by simp
    have "0 < sin (t + pi)" using 5 assms by (intro sin_gt_zero) linarith+
    then have s: "sin t < 0" by simp
    moreover have "arctan (sin t / cos t) = t + pi"
      using arctan_tan [OF r] by (simp add: tan_def)
    ultimately show ?thesis using c by (simp add: atan2_def)
  qed
qed

text \<open>
  C8. \<^verbatim>\<open>pointToLatLon\<close> is not the inverse of \<^verbatim>\<open>latLonToPoint\<close>: for every
  latitude strictly between -90 and 90 and every longitude in (-180, 180] the latitude
  comes back, and the longitude comes back shifted by 180 degrees.
\<close>

theorem pointToLatLon_latLonToPoint_shifted:
  assumes la: "- 90 < la" "la < 90" and lo: "- 180 < lo" "lo \<le> 180"
  shows "pointToLatLon (latLonToPoint la lo) =
           \<lparr>lat = la, lon = (if lo \<le> 0 then lo + 180 else lo - 180)\<rparr>"
proof -
  define phi where "phi = (90 - la) * (pi / 180)"
  define theta where "theta = (lo + 180) * (pi / 180)"
  have k: "0 < pi / 180" by simp
  have "0 * (pi / 180) < (90 - la) * (pi / 180)" "(90 - la) * (pi / 180) < 180 * (pi / 180)"
    using la k by (intro mult_strict_right_mono; simp)+
  then have phi: "0 < phi" "phi < pi" by (simp_all add: phi_def)
  have "0 * (pi / 180) < (lo + 180) * (pi / 180)" "(lo + 180) * (pi / 180) \<le> 360 * (pi / 180)"
    using lo k by (intro mult_strict_right_mono mult_right_mono; simp)+
  then have theta: "0 < theta" "theta \<le> 2 * pi" by (simp_all add: theta_def)
  have theta_lo: "lo = theta * (180 / pi) - 180" by (simp add: theta_def)
  have s: "0 < sin phi" using phi by (rule sin_gt_zero)
  have p: "latLonToPoint la lo = Vector3 (- (sin phi * cos theta)) (cos phi) (sin phi * sin theta)"
    by (simp add: latLonToPoint_def phi_def theta_def CONFIG_globe_radius_def Let_def)
  have e1: "(cos theta)\<^sup>2 + (sin theta)\<^sup>2 = 1" and e2: "(sin phi)\<^sup>2 + (cos phi)\<^sup>2 = 1"
    by simp_all
  have "(sin phi * cos theta) * (sin phi * cos theta) + cos phi * cos phi
          + (sin phi * sin theta) * (sin phi * sin theta) = 1"
    using e1 e2 by algebra
  then have len: "length_v3 (latLonToPoint la lo) = 1"
    by (simp add: p length_v3_def)
  have n: "normalize_v3 (latLonToPoint la lo) = latLonToPoint la lo"
    by (simp add: normalize_v3_def len)
  have lat': "90 - arccos (cos phi) * (180 / pi) = la"
    using phi by (simp add: arccos_cos phi_def field_simps)
  have a: "atan2 (sin phi * sin theta) (sin phi * cos theta) = atan2 (sin theta) (cos theta)"
    using s by (rule atan2_scale)
  have lon': "atan2 (sin theta) (cos theta) * (180 / pi) = (if lo \<le> 0 then lo + 180 else lo - 180)"
  proof (cases "lo \<le> 0")
    case True
    then have "(lo + 180) * (pi / 180) \<le> 180 * (pi / 180)"
      using k by (intro mult_right_mono) simp_all
    then have "theta \<le> pi" by (simp add: theta_def)
    then have "atan2 (sin theta) (cos theta) = theta"
      using theta by (intro atan2_sin_cos) linarith+
    then show ?thesis using True by (simp add: theta_def)
  next
    case False
    then have "180 * (pi / 180) < (lo + 180) * (pi / 180)"
      using k by (intro mult_strict_right_mono) simp_all
    then have "pi < theta" by (simp add: theta_def)
    then have "atan2 (sin (theta - 2 * pi)) (cos (theta - 2 * pi)) = theta - 2 * pi"
      using theta by (intro atan2_sin_cos) linarith+
    then have "atan2 (sin theta) (cos theta) = theta - 2 * pi"
      by (simp add: sin_diff cos_diff)
    then show ?thesis using False by (simp add: theta_def field_simps)
  qed
  show ?thesis
    unfolding pointToLatLon_def n Let_def
    using lat' lon' by (simp add: p a split: if_splits)
qed

theorem pointToLatLon_latLonToPoint_shifted_witness:
  "- 90 < (0::real) \<and> (0::real) < 90 \<and> - 180 < (0::real) \<and> (0::real) \<le> 180
   \<and> latLonToPoint 0 0 = Vector3 1 0 0
   \<and> pointToLatLon (latLonToPoint 0 0) = \<lparr>lat = 0, lon = 180\<rparr>"
  using pointToLatLon_latLonToPoint_shifted [of 0 0]
  by (simp add: latLonToPoint_def CONFIG_globe_radius_def)

text \<open>
  C9. The target position of \<^verbatim>\<open>flyTo\<close> is not the point that
  \<^verbatim>\<open>_latLonToPoint\<close> computes for the same latitude, longitude and distance: its
  x coordinate has the opposite sign.
\<close>

theorem flyTo_targetPos_mirrors_x:
  "flyTo_targetPos p la lo =
     Vector3 (- v3x (CountryRenderer_latLonToPoint la lo (length_v3 p)))
             (v3y (CountryRenderer_latLonToPoint la lo (length_v3 p)))
             (v3z (CountryRenderer_latLonToPoint la lo (length_v3 p)))"
  by (simp add: CountryRenderer_latLonToPoint_def flyTo_targetPos_def Let_def)

theorem flyTo_targetPos_mirrors_x_witness:
  "length_v3 (Vector3 0 0 1) = 1
   \<and> CountryRenderer_latLonToPoint 0 0 1 = Vector3 1 0 0
   \<and> flyTo_targetPos (Vector3 0 0 1) 0 0 = Vector3 (- 1) 0 0"
  using flyTo_targetPos_mirrors_x [of "Vector3 0 0 1" 0 0]
  by (simp add: CountryRenderer_latLonToPoint_def length_v3_def)


end
